theory Spec2Isabelle
  imports Complex_Main "HOL-Library.Multiset"
begin

section \<open>Text\<close>

text \<open>
  Python text is modelled by Isabelle strings. A \<^typ>\<open>char\<close> stands for the code point of
  the same number, so the model covers the code points 0 to 255. The predicates below follow
  Python's \<^verbatim>\<open>str.isspace\<close>, \<^verbatim>\<open>str.lower\<close> and the character classes of the
  \<^verbatim>\<open>re\<close> module on that range.
\<close>

definition is_space :: "char \<Rightarrow> bool" where
  "is_space c = (of_char c \<in> {9, 10, 11, 12, 13, 28, 29, 30, 31, 32, 133, 160 :: nat})"

definition is_digit :: "char \<Rightarrow> bool" where
  "is_digit c = (let n = of_char c :: nat in 48 \<le> n \<and> n \<le> 57)"

definition is_upper :: "char \<Rightarrow> bool" where
  "is_upper c = (let n = of_char c :: nat in
     (65 \<le> n \<and> n \<le> 90) \<or> (192 \<le> n \<and> n \<le> 222 \<and> n \<noteq> 215))"

text \<open>An upper-case letter and its lower-case form differ by 32, which is bit 5.\<close>

definition lower_char :: "char \<Rightarrow> char" where
  "lower_char c = (if is_upper c
     then (case c of Char b0 b1 b2 b3 b4 b5 b6 b7 \<Rightarrow> Char b0 b1 b2 b3 b4 True b6 b7)
     else c)"

definition lower :: "string \<Rightarrow> string" where
  "lower s = map lower_char s"

text \<open>The word characters of \<^verbatim>\<open>\w\<close>: alphanumeric code points and the underscore.\<close>

definition is_word :: "char \<Rightarrow> bool" where
  "is_word c = (let n = of_char c :: nat in
     (48 \<le> n \<and> n \<le> 57) \<or> (65 \<le> n \<and> n \<le> 90) \<or> n = 95 \<or> (97 \<le> n \<and> n \<le> 122) \<or>
     n = 170 \<or> n = 178 \<or> n = 179 \<or> n = 181 \<or> n = 185 \<or> n = 186 \<or>
     (188 \<le> n \<and> n \<le> 190) \<or> (192 \<le> n \<and> n \<le> 214) \<or> (216 \<le> n \<and> n \<le> 246) \<or>
     (248 \<le> n \<and> n \<le> 255))"

definition newline :: char where
  "newline = CHR 0x0A"

text \<open>\<^verbatim>\<open>s.startswith(t)\<close> and the substring test \<^verbatim>\<open>t in s\<close>.\<close>

fun startswith :: "string \<Rightarrow> string \<Rightarrow> bool" where
  "startswith s [] = True"
| "startswith [] (c # t) = False"
| "startswith (d # s) (c # t) = (d = c \<and> startswith s t)"

fun contains :: "string \<Rightarrow> string \<Rightarrow> bool" where
  "contains t [] = (t = [])"
| "contains t (c # s) = (startswith (c # s) t \<or> contains t s)"

text \<open>\<^verbatim>\<open>s.strip()\<close>, \<^verbatim>\<open>s.split()\<close> (runs of white space separate, no empty word) and
  \<^verbatim>\<open>s.split(",")\<close> (every separator cuts, empty pieces are kept).\<close>

definition strip :: "string \<Rightarrow> string" where
  "strip s = rev (dropWhile is_space (rev (dropWhile is_space s)))"

fun split_words :: "string \<Rightarrow> string \<Rightarrow> string list" where
  "split_words w [] = (if w = [] then [] else [rev w])"
| "split_words w (c # s) =
     (if is_space c then (if w = [] then split_words [] s else rev w # split_words [] s)
      else split_words (c # w) s)"

definition split :: "string \<Rightarrow> string list" where
  "split s = split_words [] s"

fun split_on :: "char \<Rightarrow> string \<Rightarrow> string \<Rightarrow> string list" where
  "split_on sep w [] = [rev w]"
| "split_on sep w (c # s) =
     (if c = sep then rev w # split_on sep [] s else split_on sep (c # w) s)"

text \<open>\<^verbatim>\<open>s.replace(",", "")\<close>.\<close>

definition remove_commas :: "string \<Rightarrow> string" where
  "remove_commas s = filter (\<lambda>c. c \<noteq> CHR '','') s"

section \<open>Integers and text\<close>

datatype py_error = AttributeError | ValueError | TypeError

text \<open>The decimal text of an integer, as an f-string writes it.\<close>

definition digit_char :: "nat \<Rightarrow> char" where
  "digit_char d = (''0123456789'' ! d)"

fun digits :: "nat \<Rightarrow> string" where
  "digits n = (if n < 10 then [digit_char n] else digits (n div 10) @ [digit_char (n mod 10)])"

definition str_int :: "int \<Rightarrow> string" where
  "str_int i = (if i < 0 then CHR ''-'' # digits (nat (- i)) else digits (nat i))"

text \<open>
  \<^verbatim>\<open>int(s)\<close> on text: white space around the number is dropped, one sign may lead, and
  the digits may be separated by single underscores. Anything else is a ValueError. The
  interpreter's optional cap on the number of digits is taken to be switched off.
\<close>

definition digit_value :: "char \<Rightarrow> nat" where
  "digit_value c = of_char c - 48"

definition digits_value :: "string \<Rightarrow> nat" where
  "digits_value s = foldl (\<lambda>n c. 10 * n + digit_value c) 0 s"

fun valid_digits :: "string \<Rightarrow> bool" where
  "valid_digits [] = False"
| "valid_digits [c] = is_digit c"
| "valid_digits (c # d # s) =
     (is_digit c \<and> (if d = CHR ''_'' then valid_digits s else valid_digits (d # s)))"

definition py_int :: "string \<Rightarrow> py_error + int" where
  "py_int s =
     (let t = strip s;
          neg = (t \<noteq> [] \<and> hd t = CHR ''-'');
          body = (if t \<noteq> [] \<and> (hd t = CHR ''-'' \<or> hd t = CHR ''+'') then tl t else t)
      in if valid_digits body
         then (let v = int (digits_value (filter (\<lambda>c. c \<noteq> CHR ''_'') body))
               in Inr (if neg then - v else v))
         else Inl ValueError)"

section \<open>Regular expressions\<close>

text \<open>
  The patterns of the program are values of \<open>regex\<close>, and \<open>rmatch\<close> is a
  backtracking matcher: it returns every way the pattern matches at the current position,
  in the order in which a backtracking engine tries them, so the head of the list is the
  match that \<^verbatim>\<open>re\<close> reports. A position is the character before it (for \<^verbatim>\<open>\b\<close>),
  the text that is left, and what group 1 has captured.
\<close>

datatype cclass = Digit | Space | SpaceDash | NotNewline | Lit char

text \<open>The character classes \<^verbatim>\<open>\d\<close>, \<^verbatim>\<open>\s\<close>, \<^verbatim>\<open>[\s-]\<close>, the dot, and a literal
  character. Every pattern is compiled with \<^verbatim>\<open>re.IGNORECASE\<close>, so a literal matches
  either case.\<close>

fun accepts :: "cclass \<Rightarrow> char \<Rightarrow> bool" where
  "accepts Digit x = is_digit x"
| "accepts Space x = is_space x"
| "accepts SpaceDash x = (is_space x \<or> x = CHR ''-'')"
| "accepts NotNewline x = (x \<noteq> newline)"
| "accepts (Lit c) x = (lower_char x = lower_char c)"

datatype regex =
    Eps
  | Atom cclass
  | Seq regex regex
  | Alt regex regex
  | Opt regex
  | Star regex
  | Lazy regex
  | Group regex
  | Ahead regex
  | Eos
  | Bound

type_synonym mstate = "char option \<times> string \<times> string option"

definition shorter :: "mstate \<Rightarrow> mstate \<Rightarrow> bool" where
  "shorter a b = (length (fst (snd a)) < length (fst (snd b)))"

definition capture :: "mstate \<Rightarrow> mstate \<Rightarrow> mstate" where
  "capture st st' =
     (fst st', fst (snd st'),
      Some (take (length (fst (snd st)) - length (fst (snd st'))) (fst (snd st))))"

definition at_boundary :: "char option \<Rightarrow> string \<Rightarrow> bool" where
  "at_boundary q s =
     ((case q of None \<Rightarrow> False | Some c \<Rightarrow> is_word c) \<noteq>
      (case s of [] \<Rightarrow> False | c # _ \<Rightarrow> is_word c))"

function rmatch :: "regex \<Rightarrow> mstate \<Rightarrow> mstate list" where
  "rmatch Eps st = [st]"
| "rmatch (Atom p) (q, [], g) = []"
| "rmatch (Atom p) (q, c # s, g) = (if accepts p c then [(Some c, s, g)] else [])"
| "rmatch (Seq a b) st = concat (map (rmatch b) (rmatch a st))"
| "rmatch (Alt a b) st = rmatch a st @ rmatch b st"
| "rmatch (Opt a) st = rmatch a st @ [st]"
| "rmatch (Star a) st =
     concat (map (\<lambda>st'. if shorter st' st then rmatch (Star a) st' else []) (rmatch a st)) @ [st]"
| "rmatch (Lazy a) st =
     st # concat (map (\<lambda>st'. if shorter st' st then rmatch (Lazy a) st' else []) (rmatch a st))"
| "rmatch (Group a) st = map (capture st) (rmatch a st)"
| "rmatch (Ahead a) st = (if rmatch a st = [] then [] else [st])"
| "rmatch Eos (q, s, g) = (if s = [] \<or> s = [newline] then [(q, s, g)] else [])"
| "rmatch Bound (q, s, g) = (if at_boundary q s then [(q, s, g)] else [])"
  by pat_completeness auto
termination
  by (relation "inv_image (less_than <*lex*> less_than) (\<lambda>(r, st). (size r, length (fst (snd st))))")
     (auto simp: shorter_def)

text \<open>\<^verbatim>\<open>re.search\<close>: the first position, from the left, at which the pattern matches.\<close>

fun search_from :: "regex \<Rightarrow> char option \<Rightarrow> string \<Rightarrow> mstate option" where
  "search_from r q [] = (case rmatch r (q, [], None) of [] \<Rightarrow> None | st # _ \<Rightarrow> Some st)"
| "search_from r q (c # s) =
     (case rmatch r (q, c # s, None) of
        [] \<Rightarrow> search_from r (Some c) s
      | st # _ \<Rightarrow> Some st)"

definition re_search :: "regex \<Rightarrow> string \<Rightarrow> mstate option" where
  "re_search r s = search_from r None s"

text \<open>\<^verbatim>\<open>match.group(1)\<close>.\<close>

definition group1 :: "mstate \<Rightarrow> string option" where
  "group1 st = snd (snd st)"

text \<open>Building blocks.\<close>

definition ch :: "char \<Rightarrow> regex" where
  "ch c = Atom (Lit c)"

definition seqs :: "regex list \<Rightarrow> regex" where
  "seqs rs = foldr Seq rs Eps"

definition lit :: "string \<Rightarrow> regex" where
  "lit s = seqs (map ch s)"

definition plus :: "regex \<Rightarrow> regex" where
  "plus r = Seq r (Star r)"

fun alts :: "regex \<Rightarrow> regex list \<Rightarrow> regex" where
  "alts r [] = r"
| "alts r (r' # rs) = Alt r (alts r' rs)"

abbreviation re_d :: regex where
  "re_d \<equiv> Atom Digit"

abbreviation re_s :: regex where
  "re_s \<equiv> Atom Space"

abbreviation re_dot :: regex where
  "re_dot \<equiv> Atom NotNewline"

abbreviation re_s_dash :: regex where
  "re_s_dash \<equiv> Atom SpaceDash"

section \<open>Floating point\<close>

text \<open>
  A Python float is an IEEE 754 double. A finite double is modelled by the rational number
  it denotes, and an operation by the exact result rounded to the nearest double, ties to
  the even significand (53 bits, gradual underflow below \<open>2\<^sup>-\<^sup>1\<^sup>0\<^sup>2\<^sup>2\<close>). No value of
  the program comes near the overflow threshold, which is left out.
\<close>

type_synonym double = rat

fun bitlen :: "nat \<Rightarrow> nat" where
  "bitlen n = (if n = 0 then 0 else Suc (bitlen (n div 2)))"

definition pow2 :: "int \<Rightarrow> rat" where
  "pow2 e = (if 0 \<le> e then 2 ^ nat e else 1 / 2 ^ nat (- e))"

definition round_half_even :: "rat \<Rightarrow> int" where
  "round_half_even x =
     (let f = \<lfloor>x\<rfloor>; d = x - of_int f
      in if d < 1 / 2 then f else if 1 / 2 < d then f + 1 else if even f then f else f + 1)"

definition fl :: "rat \<Rightarrow> double" where
  "fl x =
     (if x = 0 then 0
      else (let a = \<bar>x\<bar>;
                k = int (bitlen (nat (fst (quotient_of a)))) - int (bitlen (nat (snd (quotient_of a))));
                e = max (if a < pow2 k then k - 1 else k) (- 1022);
                u = pow2 (e - 52)
            in sgn x * of_int (round_half_even (a / u)) * u))"

text \<open>A decimal literal, \<^verbatim>\<open>a / b\<close> on two integers, and \<^verbatim>\<open>x + y\<close> on two floats.\<close>

definition float_lit :: "rat \<Rightarrow> double" where
  "float_lit x = fl x"

definition truediv :: "nat \<Rightarrow> nat \<Rightarrow> double" where
  "truediv a b = fl (of_nat a / of_nat b)"

definition fadd :: "double \<Rightarrow> double \<Rightarrow> double" where
  "fadd x y = fl (x + y)"

section \<open>ClauseMaster: the rule tables\<close>

text \<open>\<^verbatim>\<open>clause_patterns\<close>: the patterns of each family, in the order of the table.\<close>

definition amount_re :: regex where
  "amount_re = Seq (plus re_d) (Star (Seq (ch CHR '','') (plus re_d)))"

definition waiting_period_patterns :: "regex list" where
  "waiting_period_patterns =
     [seqs [Group (plus re_d), Star re_s, alts (lit ''month'') [lit ''year''], Opt (ch CHR ''s''),
            Star re_s, lit ''waiting''],
      seqs [lit ''waiting'', Star re_s, lit ''period'', Star re_s, lit ''of'', Star re_s,
            Group (plus re_d), Star re_s, alts (lit ''month'') [lit ''year''], Opt (ch CHR ''s'')]]"

definition coverage_limit_patterns :: "regex list" where
  "coverage_limit_patterns =
     [seqs [Group amount_re, Star re_s,
            alts (lit ''lakh'') [lit ''lac'', lit ''thousand'', lit ''million'']],
      seqs [lit ''coverage'', Star re_s, lit ''limit'', Star re_s, Group amount_re]]"

definition exclusions_patterns :: "regex list" where
  "exclusions_patterns =
     [seqs [lit ''exclusion'', Opt (ch CHR ''s''), Star re_s, ch CHR '':'', Star re_s,
            Group (Lazy re_dot), Ahead (Alt (ch newline) Eos)],
      seqs [lit ''not'', Star re_s, lit ''covered'', Star re_s, ch CHR '':'', Star re_s,
            Group (Lazy re_dot), Ahead (Alt (ch newline) Eos)]]"

text \<open>\<^verbatim>\<open>decision_rules\<close>.\<close>

definition min_age :: int where
  "min_age = 18"

definition max_age :: int where
  "max_age = 65"

definition waiting_surgery :: int where
  "waiting_surgery = 12"

definition waiting_pre_existing :: int where
  "waiting_pre_existing = 24"

definition waiting_general :: int where
  "waiting_general = 3"

definition coverage_surgery :: "string list" where
  "coverage_surgery = [''knee'', ''hip'', ''heart'', ''brain'', ''spine'']"

definition coverage_medical_conditions :: "string list" where
  "coverage_medical_conditions = [''cancer'', ''diabetes'', ''hypertension'']"

section \<open>extract\_clause\_info\<close>

record clause_info =
  clause_type :: string
  waiting_period :: "int option"
  coverage_limit :: "int option"
  exclusions :: "string list"
  conditions :: "string list"

text \<open>The loop \<^verbatim>\<open>for pattern in patterns: match = re.search(...); if match: ...; break\<close>
  acts on the match of the first pattern that has one.\<close>

fun first_match :: "regex list \<Rightarrow> string \<Rightarrow> mstate option" where
  "first_match [] s = None"
| "first_match (p # ps) s =
     (case re_search p s of None \<Rightarrow> first_match ps s | Some m \<Rightarrow> Some m)"

text \<open>\<^verbatim>\<open>int(match.group(1))\<close>: a group that took no part in the match is \<^verbatim>\<open>None\<close>,
  on which \<^verbatim>\<open>int\<close> and \<^verbatim>\<open>replace\<close> raise.\<close>

definition group_int :: "mstate \<Rightarrow> py_error + int" where
  "group_int m = (case group1 m of None \<Rightarrow> Inl TypeError | Some g \<Rightarrow> py_int g)"

definition group_amount :: "mstate \<Rightarrow> py_error + int" where
  "group_amount m =
     (case group1 m of None \<Rightarrow> Inl AttributeError | Some g \<Rightarrow> py_int (remove_commas g))"

definition group_exclusions :: "mstate \<Rightarrow> py_error + string list" where
  "group_exclusions m =
     (case group1 m of None \<Rightarrow> Inl AttributeError
      | Some g \<Rightarrow> Inr (map strip (split_on CHR '','' [] g)))"

definition check_waiting_period :: "string \<Rightarrow> clause_info \<Rightarrow> py_error + clause_info" where
  "check_waiting_period clause_content info =
     (case first_match waiting_period_patterns clause_content of
        None \<Rightarrow> Inr info
      | Some m \<Rightarrow>
          (case group_int m of
             Inl e \<Rightarrow> Inl e
           | Inr n \<Rightarrow> Inr (info\<lparr>waiting_period := Some n, clause_type := ''waiting_period''\<rparr>)))"

definition check_coverage_limit :: "string \<Rightarrow> clause_info \<Rightarrow> py_error + clause_info" where
  "check_coverage_limit clause_content info =
     (case first_match coverage_limit_patterns clause_content of
        None \<Rightarrow> Inr info
      | Some m \<Rightarrow>
          (case group_amount m of
             Inl e \<Rightarrow> Inl e
           | Inr n \<Rightarrow> Inr (info\<lparr>coverage_limit := Some n, clause_type := ''coverage_limit''\<rparr>)))"

definition check_exclusions :: "string \<Rightarrow> clause_info \<Rightarrow> py_error + clause_info" where
  "check_exclusions clause_content info =
     (case first_match exclusions_patterns clause_content of
        None \<Rightarrow> Inr info
      | Some m \<Rightarrow>
          (case group_exclusions m of
             Inl e \<Rightarrow> Inl e
           | Inr xs \<Rightarrow> Inr (info\<lparr>exclusions := xs, clause_type := ''exclusion''\<rparr>)))"

definition initial_clause_info :: clause_info where
  "initial_clause_info =
     \<lparr>clause_type = ''general'', waiting_period = None, coverage_limit = None,
      exclusions = [], conditions = []\<rparr>"

definition extract_clause_info :: "string \<Rightarrow> py_error + clause_info" where
  "extract_clause_info clause_content =
     (case check_waiting_period clause_content initial_clause_info of
        Inl e \<Rightarrow> Inl e
      | Inr info1 \<Rightarrow>
          (case check_coverage_limit clause_content info1 of
             Inl e \<Rightarrow> Inl e
           | Inr info2 \<Rightarrow> check_exclusions clause_content info2))"

section \<open>The records of the program\<close>

text \<open>
  \<^verbatim>\<open>ExtractedEntities\<close> of \<^verbatim>\<open>schemas.py\<close>: every field is optional. The evaluator
  receives \<^verbatim>\<open>entities.dict()\<close>, a dictionary that holds all six keys, with \<^verbatim>\<open>None\<close> for
  a field that was not extracted; so \<^verbatim>\<open>d.get(key, default)\<close> is the field itself, and
  the default is never used.
\<close>

record ExtractedEntities =
  age :: "int option"
  gender :: "string option"
  condition :: "string option"
  location :: "string option"
  policy_duration :: "string option"
  coverage_type :: "string option"

text \<open>A clause dictionary: the keys the program reads and writes. Further keys (such as
  \<^verbatim>\<open>document_id\<close>) live in the extension of the record.\<close>

record clause =
  clause_id :: string
  clause_title :: string
  clause_content :: string
  relevance_score :: "double option"

text \<open>The dictionary that \<^verbatim>\<open>evaluate_coverage_eligibility\<close> returns.\<close>

record Evaluation =
  eligible :: bool
  decision :: string
  amount :: "int option"
  justification :: string
  waiting_period_info :: string
  exclusions :: "string list"
  confidence_score :: double

section \<open>evaluate\_coverage\_eligibility\<close>

definition initial_evaluation :: Evaluation where
  "initial_evaluation =
     \<lparr>eligible = False, decision = ''rejected'', amount = None, justification = [],
      waiting_period_info = [], exclusions = [], confidence_score = 0\<rparr>"

text \<open>The age check: \<^verbatim>\<open>if age:\<close> holds for an age that is set and not zero, and the
  inner test compares it with the limits.\<close>

definition age_check_fails :: "int \<Rightarrow> bool" where
  "age_check_fails n = (n \<noteq> 0 \<and> (n < min_age \<or> n > max_age))"

definition age_rejected :: "int option \<Rightarrow> bool" where
  "age_rejected a = (case a of None \<Rightarrow> False | Some n \<Rightarrow> age_check_fails n)"

definition age_justification :: "int \<Rightarrow> string" where
  "age_justification n =
     ''Age '' @ str_int n @ '' is outside the eligible range ('' @ str_int min_age @ ''-'' @
     str_int max_age @ '' years)''"

text \<open>The required waiting period of a (lower-cased) condition.\<close>

definition required_waiting :: "string \<Rightarrow> int" where
  "required_waiting cond =
     (if list_ex (\<lambda>surgery. contains surgery cond) coverage_surgery then waiting_surgery
      else if list_ex (\<lambda>name. contains name cond) coverage_medical_conditions
      then waiting_pre_existing
      else waiting_general)"

definition waiting_info :: "int \<Rightarrow> int \<Rightarrow> string \<Rightarrow> string" where
  "waiting_info policy_months required cond =
     ''Policy is only '' @ str_int policy_months @ '' months old, but '' @ str_int required @
     '' months waiting period is required for '' @ cond"

definition waiting_justification :: "int \<Rightarrow> int \<Rightarrow> string" where
  "waiting_justification policy_months required =
     ''Waiting period not met. Required: '' @ str_int required @ '' months, Current: '' @
     str_int policy_months @ '' months''"

text \<open>The loop over the matched clauses. Its state is \<^verbatim>\<open>max_coverage\<close>,
  \<^verbatim>\<open>applicable_clauses\<close> and the exclusions collected so far.\<close>

type_synonym scan_state = "int \<times> string list \<times> string list"

definition scan_step :: "clause_info \<Rightarrow> string \<Rightarrow> scan_state \<Rightarrow> scan_state" where
  "scan_step info cid st =
     (case st of (max_coverage, applicable, excl) \<Rightarrow>
        (case coverage_limit info of
           None \<Rightarrow> (max_coverage, applicable,
                    if clause_info.exclusions info \<noteq> [] then excl @ clause_info.exclusions info else excl)
         | Some n \<Rightarrow>
             (if n \<noteq> 0 then max max_coverage n else max_coverage,
              if n \<noteq> 0 then applicable @ [cid] else applicable,
              if clause_info.exclusions info \<noteq> [] then excl @ clause_info.exclusions info else excl)))"

fun scan_clauses :: "'a clause_scheme list \<Rightarrow> scan_state \<Rightarrow> py_error + scan_state" where
  "scan_clauses [] st = Inr st"
| "scan_clauses (c # cs) st =
     (case extract_clause_info (clause_content c) of
        Inl e \<Rightarrow> Inl e
      | Inr info \<Rightarrow> scan_clauses cs (scan_step info (clause_id c) st))"

definition approved_justification :: "string \<Rightarrow> int \<Rightarrow> string" where
  "approved_justification cond max_coverage =
     ''Coverage approved for '' @ cond @ '' with maximum amount of '' @ str_int max_coverage"

definition decide :: "Evaluation \<Rightarrow> string \<Rightarrow> scan_state \<Rightarrow> Evaluation" where
  "decide evaluation cond st =
     (case st of (max_coverage, applicable, excl) \<Rightarrow>
        if max_coverage > 0
        then evaluation\<lparr>eligible := True, decision := ''approved'', amount := Some max_coverage,
               justification := approved_justification cond max_coverage,
               exclusions := excl, confidence_score := float_lit (8 / 10)\<rparr>
        else evaluation\<lparr>justification := ''No applicable coverage clauses found for the query'',
               exclusions := excl, confidence_score := float_lit (3 / 10)\<rparr>)"

definition check_coverage :: "string \<Rightarrow> 'a clause_scheme list \<Rightarrow> py_error + Evaluation" where
  "check_coverage cond matched_clauses =
     (case scan_clauses matched_clauses (0, [], []) of
        Inl e \<Rightarrow> Inl e
      | Inr st \<Rightarrow> Inr (decide initial_evaluation cond st))"

text \<open>The waiting-period check: \<^verbatim>\<open>if policy_duration and condition:\<close> holds when both
  texts are set and not empty.\<close>

definition check_waiting :: "string \<Rightarrow> string option \<Rightarrow> 'a clause_scheme list \<Rightarrow> py_error + Evaluation" where
  "check_waiting cond duration matched_clauses =
     (case duration of
        None \<Rightarrow> check_coverage cond matched_clauses
      | Some d \<Rightarrow>
          if d \<noteq> [] \<and> cond \<noteq> []
          then (case py_int d of
                  Inl e \<Rightarrow> Inl e
                | Inr policy_months \<Rightarrow>
                    if policy_months < required_waiting cond
                    then Inr (initial_evaluation
                           \<lparr>waiting_period_info :=
                              waiting_info policy_months (required_waiting cond) cond,
                            justification :=
                              waiting_justification policy_months (required_waiting cond)\<rparr>)
                    else check_coverage cond matched_clauses)
          else check_coverage cond matched_clauses)"

text \<open>\<^verbatim>\<open>query_entities.get("condition", "").lower()\<close> raises AttributeError when the
  condition is \<^verbatim>\<open>None\<close>.\<close>

definition check_condition ::
    "ExtractedEntities \<Rightarrow> 'a clause_scheme list \<Rightarrow> py_error + Evaluation" where
  "check_condition query_entities matched_clauses =
     (case condition query_entities of
        None \<Rightarrow> Inl AttributeError
      | Some c \<Rightarrow> check_waiting (lower c) (policy_duration query_entities) matched_clauses)"

definition evaluate_coverage_eligibility ::
    "ExtractedEntities \<Rightarrow> 'a clause_scheme list \<Rightarrow> py_error + Evaluation" where
  "evaluate_coverage_eligibility query_entities matched_clauses =
     (case age query_entities of
        None \<Rightarrow> check_condition query_entities matched_clauses
      | Some n \<Rightarrow>
          if age_check_fails n
          then Inr (initial_evaluation\<lparr>justification := age_justification n\<rparr>)
          else check_condition query_entities matched_clauses)"

section \<open>The fallback entity extraction of the LLM service\<close>

definition age_pattern :: regex where
  "age_pattern =
     seqs [Group (plus re_d), Star re_s_dash, alts (lit ''year'') [lit ''yr''], Opt (ch CHR ''s''),
           Star re_s_dash, lit ''old'']"

definition gender_pattern :: regex where
  "gender_pattern =
     seqs [Bound, Group (alts (lit ''male'') [lit ''female'', lit ''man'', lit ''woman'']), Bound]"

definition duration_pattern :: regex where
  "duration_pattern =
     seqs [Group (plus re_d), Star re_s_dash, alts (lit ''month'') [lit ''year'', lit ''yr''],
           Opt (ch CHR ''s''), Star re_s_dash, alts (lit ''old'') [lit ''policy'']]"

definition medical_keywords :: "string list" where
  "medical_keywords =
     [''surgery'', ''operation'', ''knee'', ''hip'', ''heart'', ''cancer'', ''diabetes'']"

definition query_locations :: "string list" where
  "query_locations = [''Mumbai'', ''Delhi'', ''Pune'', ''Bangalore'', ''Chennai'', ''Kolkata'']"

text \<open>The loop \<^verbatim>\<open>for keyword in keywords: if keyword.lower() in query.lower(): ...; break\<close>.\<close>

definition first_keyword :: "string list \<Rightarrow> string \<Rightarrow> string option" where
  "first_keyword keywords query = find (\<lambda>k. contains (lower k) (lower query)) keywords"

definition extract_age :: "string \<Rightarrow> py_error + int option" where
  "extract_age query =
     (case re_search age_pattern query of
        None \<Rightarrow> Inr None
      | Some m \<Rightarrow> (case group_int m of Inl e \<Rightarrow> Inl e | Inr n \<Rightarrow> Inr (Some n)))"

definition extract_gender :: "string \<Rightarrow> py_error + string option" where
  "extract_gender query =
     (case re_search gender_pattern query of
        None \<Rightarrow> Inr None
      | Some m \<Rightarrow> (case group1 m of None \<Rightarrow> Inl AttributeError | Some g \<Rightarrow> Inr (Some (lower g))))"

definition extract_duration :: "string \<Rightarrow> string option" where
  "extract_duration query =
     (case re_search duration_pattern query of None \<Rightarrow> None | Some m \<Rightarrow> group1 m)"

definition fallback_entity_extraction :: "string \<Rightarrow> py_error + ExtractedEntities" where
  "fallback_entity_extraction query =
     (case extract_age query of
        Inl e \<Rightarrow> Inl e
      | Inr a \<Rightarrow>
          (case extract_gender query of
             Inl e \<Rightarrow> Inl e
           | Inr g \<Rightarrow>
               Inr \<lparr>age = a, gender = g,
                    condition = first_keyword medical_keywords query,
                    location = first_keyword query_locations query,
                    policy_duration = extract_duration query,
                    coverage_type = None\<rparr>))"

text \<open>\<^verbatim>\<open>_fallback_decision\<close> evaluates the extracted entities against the matched clauses.\<close>

definition fallback_evaluation :: "string \<Rightarrow> 'a clause_scheme list \<Rightarrow> py_error + Evaluation" where
  "fallback_evaluation query matched_clauses =
     (case fallback_entity_extraction query of
        Inl e \<Rightarrow> Inl e
      | Inr entities \<Rightarrow> evaluate_coverage_eligibility entities matched_clauses)"

section \<open>match\_clauses\_to\_query\<close>

definition medical_terms :: "string list" where
  "medical_terms = [''surgery'', ''knee'', ''hip'', ''heart'', ''cancer'', ''diabetes'']"

definition locations :: "string list" where
  "locations = [''mumbai'', ''delhi'', ''pune'', ''bangalore'', ''chennai'']"

text \<open>The loops \<^verbatim>\<open>for term in terms: if term in query_lower and term in clause_content:
  relevance_score += bonus\<close>.\<close>

definition add_bonuses :: "string list \<Rightarrow> double \<Rightarrow> string \<Rightarrow> string \<Rightarrow> double \<Rightarrow> double" where
  "add_bonuses terms bonus query_lower content score =
     fold (\<lambda>term s. if contains term query_lower \<and> contains term content then fadd s bonus else s)
       terms score"

text \<open>The score of one clause, as the loop body computes it before the threshold test.\<close>

definition relevance :: "string \<Rightarrow> string \<Rightarrow> double" where
  "relevance query_lower content =
     (let query_words = set (split query_lower);
          clause_words = set (split content);
          common_words = query_words \<inter> clause_words;
          base = (if common_words \<noteq> {} then truediv (card common_words) (card query_words) else 0)
      in add_bonuses locations (float_lit (2 / 10)) query_lower content
           (add_bonuses medical_terms (float_lit (3 / 10)) query_lower content base))"

fun score_clauses :: "string \<Rightarrow> 'a clause_scheme list \<Rightarrow> 'a clause_scheme list" where
  "score_clauses query_lower [] = []"
| "score_clauses query_lower (c # cs) =
     (if relevance query_lower (lower (clause_content c)) > float_lit (1 / 10)
      then c\<lparr>relevance_score := Some (min (relevance query_lower (lower (clause_content c))) 1)\<rparr>
           # score_clauses query_lower cs
      else score_clauses query_lower cs)"

text \<open>\<^verbatim>\<open>list.sort(key=..., reverse=True)\<close> is a stable sort: the list is reversed, sorted
  stably in ascending order, and reversed again.\<close>

definition sort_reverse :: "('a \<Rightarrow> double) \<Rightarrow> 'a list \<Rightarrow> 'a list" where
  "sort_reverse key xs = rev (sort_key key (rev xs))"

definition score_key :: "'a clause_scheme \<Rightarrow> double" where
  "score_key x = (case relevance_score x of None \<Rightarrow> 0 | Some r \<Rightarrow> r)"

definition match_clauses_to_query :: "string \<Rightarrow> 'a clause_scheme list \<Rightarrow> 'a clause_scheme list" where
  "match_clauses_to_query query clauses = sort_reverse score_key (score_clauses (lower query) clauses)"

section \<open>Notions used to state the properties\<close>

text \<open>The coverage limits that \<^verbatim>\<open>extract_clause_info\<close> finds in a list of clauses.\<close>

definition clause_limit :: "'a clause_scheme \<Rightarrow> int option" where
  "clause_limit c =
     (case extract_clause_info (clause_content c) of Inl e \<Rightarrow> None | Inr info \<Rightarrow> coverage_limit info)"

definition coverage_limits :: "'a clause_scheme list \<Rightarrow> int list" where
  "coverage_limits cs = List.map_filter clause_limit cs"

text \<open>The entities of a query from which nothing was extracted, and a clause with the given
  identifier and content, to build examples from.\<close>

definition no_entities :: ExtractedEntities where
  "no_entities =
     \<lparr>age = None, gender = None, condition = None, location = None, policy_duration = None,
      coverage_type = None\<rparr>"

definition mk_clause :: "string \<Rightarrow> string \<Rightarrow> clause" where
  "mk_clause cid content =
     \<lparr>clause_id = cid, clause_title = [], clause_content = content, relevance_score = None\<rparr>"

section \<open>The evaluator: what the decision depends on\<close>

lemma scan_step_fst:
  "0 \<le> mx \<Longrightarrow> fst (scan_step info cid (mx, app, ex)) =
     (case coverage_limit info of None \<Rightarrow> mx | Some n \<Rightarrow> max mx n)"
  by (auto simp: scan_step_def split: option.splits)

lemma Max_insert_max:
  fixes S :: "int set"
  shows "finite S \<Longrightarrow> Max (insert (max a b) S) = Max (insert a (insert b S))"
  by (cases "S = {}") (simp_all add: max.assoc)

lemma scan_clauses_max:
  "scan_clauses cs (mx, app, ex) = Inr st \<Longrightarrow> 0 \<le> mx \<Longrightarrow>
     fst st = Max (insert mx (set (coverage_limits cs)))"
proof (induction cs arbitrary: mx app ex)
  case Nil
  then show ?case by (auto simp: coverage_limits_def List.map_filter_simps)
next
  case (Cons c cs)
  from Cons.prems(1) obtain info where info: "extract_clause_info (clause_content c) = Inr info"
    and rest: "scan_clauses cs (scan_step info (clause_id c) (mx, app, ex)) = Inr st"
    by (auto split: sum.splits)
  obtain mx' app' ex' where st': "scan_step info (clause_id c) (mx, app, ex) = (mx', app', ex')"
    by (cases "scan_step info (clause_id c) (mx, app, ex)") auto
  have mx': "mx' = (case coverage_limit info of None \<Rightarrow> mx | Some n \<Rightarrow> max mx n)"
    using scan_step_fst [OF Cons.prems(2), of info "clause_id c" app ex] st' by simp
  then have "0 \<le> mx'" using Cons.prems(2) by (auto split: option.splits)
  from Cons.IH [OF rest [unfolded st'] this]
  have "fst st = Max (insert mx' (set (coverage_limits cs)))" .
  then show ?case using mx' info Max_insert_max [of "set (coverage_limits cs)" mx]
    by (cases "coverage_limit info")
       (simp_all add: coverage_limits_def List.map_filter_simps clause_limit_def)
qed

lemma Max_insert0_pos:
  fixes S :: "int set"
  assumes "finite S" "0 < Max (insert 0 S)"
  shows "S \<noteq> {} \<and> Max (insert 0 S) = Max S \<and> (\<exists>n\<in>S. 0 < n)"
proof -
  from assms have ne: "S \<noteq> {}" by auto
  with assms have "Max (insert 0 S) = max 0 (Max S)" by simp
  with assms(2) have "Max (insert 0 S) = Max S" by simp
  moreover have "Max S \<in> S" using assms(1) ne by simp
  ultimately show ?thesis using ne assms(2) by auto
qed

lemma Max_insert0_pos_iff:
  fixes S :: "int set"
  assumes "finite S"
  shows "0 < Max (insert 0 S) \<longleftrightarrow> (\<exists>n\<in>S. 0 < n)"
proof
  assume "0 < Max (insert 0 S)" with assms show "\<exists>n\<in>S. 0 < n" using Max_insert0_pos by blast
next
  assume "\<exists>n\<in>S. 0 < n"
  then obtain n where "n \<in> S" "0 < n" by blast
  then have "n \<le> Max (insert 0 S)" using assms by simp
  with \<open>0 < n\<close> show "0 < Max (insert 0 S)" by simp
qed

lemma check_coverage_Inr:
  assumes "check_coverage cond cs = Inr ev"
  shows "waiting_period_info ev = [] \<and>
         (decision ev = ''approved'' \<or> decision ev = ''rejected'') \<and>
         (decision ev = ''approved'') = (\<exists>n\<in>set (coverage_limits cs). 0 < n) \<and>
         (decision ev = ''approved'' \<longrightarrow> eligible ev \<and> coverage_limits cs \<noteq> [] \<and>
            amount ev = Some (Max (set (coverage_limits cs))) \<and>
            0 < Max (set (coverage_limits cs)) \<and> confidence_score ev = float_lit (8 / 10)) \<and>
         (decision ev = ''rejected'' \<longrightarrow> \<not> eligible ev \<and> amount ev = None \<and>
            confidence_score ev = float_lit (3 / 10) \<and>
            justification ev = ''No applicable coverage clauses found for the query'')"
proof -
  from assms obtain st where st: "scan_clauses cs (0, [], []) = Inr st"
    and ev: "ev = decide initial_evaluation cond st"
    by (auto simp: check_coverage_def split: sum.splits)
  have mx: "fst st = Max (insert 0 (set (coverage_limits cs)))"
    using scan_clauses_max [OF st] by simp
  obtain m a e where [simp]: "st = (m, a, e)" by (cases st) auto
  show ?thesis
  proof (cases "0 < m")
    case True
    with mx Max_insert0_pos [of "set (coverage_limits cs)"]
    have "coverage_limits cs \<noteq> []" "m = Max (set (coverage_limits cs))"
      "\<exists>n\<in>set (coverage_limits cs). 0 < n" by auto
    with True show ?thesis by (simp add: ev decide_def initial_evaluation_def)
  next
    case False
    with mx Max_insert0_pos_iff [of "set (coverage_limits cs)"]
    have "\<not> (\<exists>n\<in>set (coverage_limits cs). 0 < n)" by simp
    with False show ?thesis by (simp add: ev decide_def initial_evaluation_def)
  qed
qed


lemma waiting_info_nonempty: "waiting_info m r c \<noteq> []"
  by (simp add: waiting_info_def)

lemma check_waiting_cases:
  assumes "check_waiting cond d cs = Inr ev"
  shows "(\<exists>t m. d = Some t \<and> t \<noteq> [] \<and> cond \<noteq> [] \<and> py_int t = Inr m \<and> m < required_waiting cond \<and>
            ev = initial_evaluation\<lparr>waiting_period_info := waiting_info m (required_waiting cond) cond,
                   justification := waiting_justification m (required_waiting cond)\<rparr>)
         \<or> check_coverage cond cs = Inr ev"
  using assms by (auto simp: check_waiting_def split: option.splits if_splits sum.splits)

lemma evaluate_cases:
  assumes "evaluate_coverage_eligibility qe cs = Inr ev"
  shows "(\<exists>n. age qe = Some n \<and> age_check_fails n \<and>
            ev = initial_evaluation\<lparr>justification := age_justification n\<rparr>)
         \<or> (\<not> age_rejected (age qe) \<and>
            (\<exists>c. condition qe = Some c \<and> check_waiting (lower c) (policy_duration qe) cs = Inr ev))"
  using assms
  by (auto simp: evaluate_coverage_eligibility_def check_condition_def age_rejected_def
      split: option.splits if_splits)


lemma no_condition_raises:
  assumes "\<not> age_rejected (age qe)" and "condition qe = None"
  shows "evaluate_coverage_eligibility qe cs = Inl AttributeError"
  using assms
  by (auto simp: evaluate_coverage_eligibility_def check_condition_def age_rejected_def
      split: option.splits)


lemma two_limits_example:
  "evaluate_coverage_eligibility (no_entities\<lparr>condition := Some ''fever''\<rparr>)
     [mk_clause ''c1'' ''coverage limit 5'', mk_clause ''c2'' ''covers 2 lakh''] =
     Inr \<lparr>eligible = True, decision = ''approved'', amount = Some 5,
          justification = ''Coverage approved for fever with maximum amount of 5'',
          waiting_period_info = [], exclusions = [], confidence_score = float_lit (8 / 10)\<rparr>
   \<and> coverage_limits [mk_clause ''c1'' ''coverage limit 5'', mk_clause ''c2'' ''covers 2 lakh''] = [5, 2]"
  by code_simp



section \<open>Claims about evaluate\_coverage\_eligibility\<close>

text \<open>
  Claim C1 says that the evaluator returns an evaluation for every record of entities, also
  for a query from which no condition was extracted, and never raises. The code does not do
  that: when nothing was extracted, \<^verbatim>\<open>condition\<close> is \<^verbatim>\<open>None\<close>, the default of
  \<^verbatim>\<open>get\<close> is not used because the key is there, and \<^verbatim>\<open>None.lower()\<close> raises AttributeError.
\<close>

theorem C1_no_condition_raises:
  "evaluate_coverage_eligibility no_entities ([] :: clause list) = Inl AttributeError"
  by code_simp

text \<open>
  Claim C2 says that every age that is present and outside 18 to 65 is rejected at once.
  The code misses the age 0: \<^verbatim>\<open>if age:\<close> takes it for an absent age, the limits are not
  looked at, and a clause with a coverage limit gets the request approved.
\<close>

theorem C2_age_zero_approved:
  "evaluate_coverage_eligibility (no_entities\<lparr>age := Some 0, condition := Some ''fever''\<rparr>)
     [mk_clause ''c1'' ''coverage limit 5''] =
   Inr \<lparr>eligible = True, decision = ''approved'', amount = Some 5,
        justification = ''Coverage approved for fever with maximum amount of 5'',
        waiting_period_info = [], exclusions = [], confidence_score = float_lit (8 / 10)\<rparr>"
  by code_simp




text \<open>
  Claim C7, as amended: in every evaluation that is returned, the decision approved implies
  that \<^verbatim>\<open>eligible\<close> is true, that the amount is set and is the greatest coverage limit
  extracted from the matched clauses, and that the confidence score is 0.8; and when neither
  the age check nor the waiting-period check has rejected, the decision is approved exactly
  when some extracted coverage limit is greater than 0.
\<close>

theorem C7_approved:
  assumes "evaluate_coverage_eligibility qe cs = Inr ev"
  shows "(decision ev = ''approved'' \<longrightarrow>
            eligible ev \<and> coverage_limits cs \<noteq> [] \<and>
            amount ev = Some (Max (set (coverage_limits cs))) \<and>
            0 < Max (set (coverage_limits cs)) \<and> confidence_score ev = float_lit (8 / 10)) \<and>
         (\<not> age_rejected (age qe) \<and> waiting_period_info ev = [] \<longrightarrow>
            (decision ev = ''approved'') = (\<exists>n\<in>set (coverage_limits cs). 0 < n))"
proof -
  from evaluate_cases [OF assms] show ?thesis
  proof (elim disjE exE conjE)
    fix n assume "age qe = Some n" "age_check_fails n"
      "ev = initial_evaluation\<lparr>justification := age_justification n\<rparr>"
    then show ?thesis by (simp add: initial_evaluation_def age_rejected_def)
  next
    fix c assume na: "\<not> age_rejected (age qe)" and "condition qe = Some c"
      and w: "check_waiting (lower c) (policy_duration qe) cs = Inr ev"
    from check_waiting_cases [OF w] show ?thesis
    proof (elim disjE exE conjE)
      fix t m assume "ev = initial_evaluation\<lparr>waiting_period_info := waiting_info m (required_waiting (lower c)) (lower c),
                   justification := waiting_justification m (required_waiting (lower c))\<rparr>"
      then show ?thesis by (simp add: initial_evaluation_def waiting_info_nonempty)
    next
      assume "check_coverage (lower c) cs = Inr ev"
      from check_coverage_Inr [OF this] show ?thesis by blast
    qed
  qed
qed

theorem C7_witness:
  "evaluate_coverage_eligibility (no_entities\<lparr>condition := Some ''fever''\<rparr>)
     [mk_clause ''c1'' ''coverage limit 5'', mk_clause ''c2'' ''covers 2 lakh''] =
     Inr \<lparr>eligible = True, decision = ''approved'', amount = Some 5,
          justification = ''Coverage approved for fever with maximum amount of 5'',
          waiting_period_info = [], exclusions = [], confidence_score = float_lit (8 / 10)\<rparr>
   \<and> Max (set (coverage_limits [mk_clause ''c1'' ''coverage limit 5'', mk_clause ''c2'' ''covers 2 lakh''])) = 5
   \<and> (\<exists>n\<in>set (coverage_limits [mk_clause ''c1'' ''coverage limit 5'', mk_clause ''c2'' ''covers 2 lakh'']). 0 < n)"
proof -
  have h: "evaluate_coverage_eligibility (no_entities\<lparr>condition := Some ''fever''\<rparr>)
     [mk_clause ''c1'' ''coverage limit 5'', mk_clause ''c2'' ''covers 2 lakh''] =
     Inr \<lparr>eligible = True, decision = ''approved'', amount = Some 5,
          justification = ''Coverage approved for fever with maximum amount of 5'',
          waiting_period_info = [], exclusions = [], confidence_score = float_lit (8 / 10)\<rparr>"
    using two_limits_example by simp
  show ?thesis using C7_approved [OF h] h by (simp add: no_entities_def age_rejected_def)
qed

text \<open>
  The claim as stated fails when an earlier check rejects: at the age 17 a clause with the
  coverage limit 5 is matched, and the decision is rejected.
\<close>

theorem C7_counterexample:
  "evaluate_coverage_eligibility (no_entities\<lparr>age := Some 17\<rparr>)
     [mk_clause ''c1'' ''coverage limit 5''] =
     Inr \<lparr>eligible = False, decision = ''rejected'', amount = None,
          justification = ''Age 17 is outside the eligible range (18-65 years)'',
          waiting_period_info = [], exclusions = [], confidence_score = 0\<rparr>
   \<and> coverage_limits [mk_clause ''c1'' ''coverage limit 5''] = [5]"
  by code_simp




end
